theory Spec2Isabelle
  imports Main
begin

section \<open>The auth client of the frontend: \<open>frontend/src/api/loginAPI.ts\<close>\<close>

text \<open>
  The module has one constant, resolved when the module is loaded, two type declarations
  and two exported functions. Everything the functions do is an effect on the browser
  (assigning the location, sending a request through axios), so the browser is an explicit
  state that every function takes and returns.
\<close>

subsection \<open>Values\<close>

text \<open>
  The values \<open>import.meta.env.VITE_API_URL\<close> can hold: Vite exposes a variable that is set
  as a string and one that is not set as \<open>undefined\<close>.
\<close>

datatype js_value = Undefined | Str string

text \<open>JavaScript's truthiness on these values: \<open>undefined\<close> and the empty string are falsy.\<close>

fun truthy :: "js_value \<Rightarrow> bool" where
  "truthy Undefined = False"
| "truthy (Str s) = (s \<noteq> [])"

text \<open>The operator \<open>a || b\<close>: the left operand when it is truthy, the right one otherwise.\<close>

definition js_or :: "js_value \<Rightarrow> js_value \<Rightarrow> js_value" where
  "js_or a b = (if truthy a then a else b)"

text \<open>The string a value contributes to a template literal and to \<open>console.log\<close>.\<close>

fun to_string :: "js_value \<Rightarrow> string" where
  "to_string Undefined = ''undefined''"
| "to_string (Str s) = s"

text \<open>
  JSON values, for the body of a request. Numbers are kept as integers: the client never
  computes with one.
\<close>

datatype json =
    JNull
  | JBool bool
  | JNum int
  | JStr string
  | JArr "json list"
  | JObj "(string \<times> json) list"

subsection \<open>The declared types\<close>

text \<open>
  A TypeScript object type is erased when the program runs, so it is kept here as what the
  declaration says: for each field its name, its type and whether it is optional (\<open>?\<close>).
\<close>

datatype ts_type = TString | TNumber

type_synonym ts_object_type = "(string \<times> ts_type \<times> bool) list"

definition AuthLoginResponse :: ts_object_type where
  "AuthLoginResponse =
     [(''auth_url'', TString, False),
      (''state'', TString, False)]"

definition TokenResponse :: ts_object_type where
  "TokenResponse =
     [(''access_token'', TString, False),
      (''token_type'', TString, False),
      (''expires_in'', TNumber, False),
      (''refresh_token'', TString, True),
      (''scope'', TString, True)]"

text \<open>Two declarations have the same shape when they declare the same fields, in any order.\<close>

definition same_shape :: "ts_object_type \<Rightarrow> ts_object_type \<Rightarrow> bool" where
  "same_shape d d' = (set d = set d')"

subsection \<open>The browser and the transport\<close>

datatype http_method = GET | POST

record request =
  http_method :: http_method
  url :: string
  body :: json

text \<open>
  What the module can touch: the environment Vite provides (\<open>import.meta.env\<close>), the
  location of the browsing context (\<open>window.location.href\<close>), the requests sent so far,
  oldest first, and the lines written to the console.
\<close>

record browser =
  import_meta_env :: "string \<rightharpoonup> string"
  href :: string
  requests :: "request list"
  console :: "string list"

text \<open>The response object axios resolves with; the client reads only \<open>data\<close>.\<close>

record 'd response =
  status :: nat
  data :: 'd

text \<open>
  The backend and the network are outside the program: they are a parameter that gives,
  for a request, either the error axios rejects with or the response it resolves with.
\<close>

type_synonym ('e, 'd) transport = "request \<Rightarrow> 'e + 'd response"

text \<open>
  The errors of the transport, for concrete inputs: the three failures the specification
  names.
\<close>

datatype transport_error = NetworkError | HttpStatus nat | MalformedBody

text \<open>\<open>axios.post(url, body)\<close>: sends one POST request and settles as the transport says.\<close>

definition axios_post ::
  "('e, 'd) transport \<Rightarrow> string \<Rightarrow> json \<Rightarrow> browser \<Rightarrow> ('e + 'd response) \<times> browser" where
  "axios_post backend u b w =
     (let req = \<lparr>http_method = POST, url = u, body = b\<rparr>
      in (backend req, w\<lparr>requests := requests w @ [req]\<rparr>))"

text \<open>
  What the network gives for a request, before axios has looked at it: no response at all
  (the host is not found, the connection fails), or an HTTP response with its status and
  its body. The body is text that either is JSON or is not.
\<close>

datatype wire_body = WellFormed json | Malformed string

datatype wire_outcome = NoResponse | HttpResponse nat wire_body

text \<open>
  How axios settles with its defaults, which the call in \<open>refreshAccessToken\<close> uses since it
  passes no configuration. axios is a dependency of the repository, not part of it.
  \<^item> No response: the promise rejects.
  \<^item> \<open>validateStatus\<close> accepts the statuses from 200 to 299; on any other the promise rejects.
  \<^item> The body is given to \<open>JSON.parse\<close>; when that fails the failure is dropped
    (\<open>silentJSONParsing\<close>) and \<open>data\<close> is the text of the body, a string.
\<close>

definition validateStatus :: "nat \<Rightarrow> bool" where
  "validateStatus st = (200 \<le> st \<and> st < 300)"

definition axios_defaults :: "(request \<Rightarrow> wire_outcome) \<Rightarrow> (transport_error, json) transport" where
  "axios_defaults wire req =
     (case wire req of
        NoResponse \<Rightarrow> Inl NetworkError
      | HttpResponse st b \<Rightarrow>
          if validateStatus st
          then Inr \<lparr>status = st,
                    data = (case b of WellFormed j \<Rightarrow> j | Malformed t \<Rightarrow> JStr t)\<rparr>
          else Inl (HttpStatus st))"

subsection \<open>The module\<close>

text \<open>The state of the loaded module: its constant, and the browser it runs in.\<close>

record module_state =
  API_BASE_URL :: js_value
  browser :: browser

definition env_get :: "(string \<rightharpoonup> string) \<Rightarrow> string \<Rightarrow> js_value" where
  "env_get env k = (case env k of None \<Rightarrow> Undefined | Some v \<Rightarrow> Str v)"

text \<open>
  Loading the module runs its top level:
  \<^verbatim>\<open>const API_BASE_URL = import.meta.env.VITE_API_URL || "http://localhost:8000";\<close>
  \<^verbatim>\<open>console.log(API_BASE_URL);\<close>
\<close>

definition load_module :: "browser \<Rightarrow> module_state" where
  "load_module w =
     (let base = js_or (env_get (import_meta_env w) ''VITE_API_URL'')
                       (Str ''http://localhost:8000'')
      in \<lparr>API_BASE_URL = base,
          browser = w\<lparr>console := console w @ [to_string base]\<rparr>\<rparr>)"

text \<open>
  \<^verbatim>\<open>window.location.href = `${API_BASE_URL}/auth/login?redirect=true`;\<close>
  The function is \<open>void\<close>: all it gives back is the state after it.
\<close>

definition redirectToLogin :: "module_state \<Rightarrow> module_state" where
  "redirectToLogin s =
     s\<lparr>browser := (browser s)\<lparr>href := to_string (API_BASE_URL s) @ ''/auth/login?redirect=true''\<rparr>\<rparr>"

text \<open>
  \<^verbatim>\<open>const res = await axios.post<TokenResponse>(`${API_BASE_URL}/auth/refresh`, { refresh_token });\<close>
  \<^verbatim>\<open>return res.data;\<close>
  The promise the function returns is its result here: \<open>Inl\<close> when it rejects, \<open>Inr\<close>
  when it resolves. A rejected \<open>await\<close> leaves the function at once with the same error.
\<close>

definition refreshAccessToken ::
  "('e, 'd) transport \<Rightarrow> string \<Rightarrow> module_state \<Rightarrow> ('e + 'd) \<times> module_state" where
  "refreshAccessToken backend refresh_token s =
     (case axios_post backend (to_string (API_BASE_URL s) @ ''/auth/refresh'')
                      (JObj [(''refresh_token'', JStr refresh_token)]) (browser s) of
        (Inl e, w) \<Rightarrow> (Inl e, s\<lparr>browser := w\<rparr>)
      | (Inr res, w) \<Rightarrow> (Inr (data res), s\<lparr>browser := w\<rparr>))"

text \<open>
  A session of the client: the calls made after the module is loaded, in order. The result
  of a refresh goes to its caller; what stays is the state.
\<close>

datatype call = RedirectToLogin | RefreshAccessToken string

fun exec :: "('e, 'd) transport \<Rightarrow> call \<Rightarrow> module_state \<Rightarrow> module_state" where
  "exec backend RedirectToLogin s = redirectToLogin s"
| "exec backend (RefreshAccessToken t) s = snd (refreshAccessToken backend t s)"

primrec run :: "('e, 'd) transport \<Rightarrow> call list \<Rightarrow> module_state \<Rightarrow> module_state" where
  "run backend [] s = s"
| "run backend (c # cs) s = run backend cs (exec backend c s)"

text \<open>The refresh tokens of the refresh calls of a session, in order.\<close>

primrec refresh_tokens :: "call list \<Rightarrow> string list" where
  "refresh_tokens [] = []"
| "refresh_tokens (c # cs) =
     (case c of RedirectToLogin \<Rightarrow> refresh_tokens cs
              | RefreshAccessToken t \<Rightarrow> t # refresh_tokens cs)"

section \<open>Facts about single steps\<close>

lemma API_BASE_URL_load:
  "API_BASE_URL (load_module w) =
     js_or (env_get (import_meta_env w) ''VITE_API_URL'') (Str ''http://localhost:8000'')"
  by (simp add: load_module_def Let_def)

lemma browser_load:
  "browser (load_module w) = w\<lparr>console := console w @ [to_string (API_BASE_URL (load_module w))]\<rparr>"
  by (simp add: load_module_def Let_def)

lemma API_BASE_URL_redirect: "API_BASE_URL (redirectToLogin s) = API_BASE_URL s"
  by (simp add: redirectToLogin_def)

lemma snd_refresh:
  "snd (refreshAccessToken backend t s) =
     s\<lparr>browser := (browser s)\<lparr>requests := requests (browser s) @
        [\<lparr>http_method = POST, url = to_string (API_BASE_URL s) @ ''/auth/refresh'',
          body = JObj [(''refresh_token'', JStr t)]\<rparr>]\<rparr>\<rparr>"
  by (simp add: refreshAccessToken_def axios_post_def Let_def split: sum.split)

lemma fst_refresh:
  "fst (refreshAccessToken backend t s) =
     map_sum id data
       (backend \<lparr>http_method = POST, url = to_string (API_BASE_URL s) @ ''/auth/refresh'',
                 body = JObj [(''refresh_token'', JStr t)]\<rparr>)"
  by (simp add: refreshAccessToken_def axios_post_def Let_def split: sum.split)

lemma API_BASE_URL_exec: "API_BASE_URL (exec backend c s) = API_BASE_URL s"
  by (cases c) (simp_all add: API_BASE_URL_redirect snd_refresh)

lemma axios_defaults_never_malformed: "axios_defaults wire req \<noteq> Inl MalformedBody"
  by (simp add: axios_defaults_def split: wire_outcome.split)

section \<open>Facts about sessions\<close>

lemma API_BASE_URL_run: "API_BASE_URL (run backend cs s) = API_BASE_URL s"
  by (induction cs arbitrary: s) (simp_all add: API_BASE_URL_exec)

lemma requests_run:
  "requests (browser (run backend cs s)) =
     requests (browser s) @
     map (\<lambda>t. \<lparr>http_method = POST, url = to_string (API_BASE_URL s) @ ''/auth/refresh'',
                body = JObj [(''refresh_token'', JStr t)]\<rparr>) (refresh_tokens cs)"
proof (induction cs arbitrary: s)
  case Nil
  show ?case by simp
next
  case (Cons c cs)
  show ?case
  proof (cases c)
    case RedirectToLogin
    then show ?thesis
      by (simp add: Cons.IH API_BASE_URL_redirect) (simp add: redirectToLogin_def)
  next
    case (RefreshAccessToken t)
    have "API_BASE_URL (snd (refreshAccessToken backend t s)) = API_BASE_URL s"
      by (simp add: snd_refresh)
    with RefreshAccessToken show ?thesis
      by (simp add: Cons.IH) (simp add: snd_refresh)
  qed
qed

lemma href_run:
  "href (browser (run backend cs s)) =
     (if RedirectToLogin \<in> set cs
      then to_string (API_BASE_URL s) @ ''/auth/login?redirect=true''
      else href (browser s))"
proof (induction cs arbitrary: s)
  case Nil
  show ?case by simp
next
  case (Cons c cs)
  show ?case
  proof (cases c)
    case RedirectToLogin
    then show ?thesis
      by (simp add: Cons.IH API_BASE_URL_redirect) (simp add: redirectToLogin_def)
  next
    case (RefreshAccessToken t)
    have "API_BASE_URL (snd (refreshAccessToken backend t s)) = API_BASE_URL s"
      by (simp add: snd_refresh)
    with RefreshAccessToken show ?thesis
      by (simp add: Cons.IH) (simp add: snd_refresh)
  qed
qed

lemma exec_env:
  "exec backend c (s\<lparr>browser := (browser s)\<lparr>import_meta_env := env'\<rparr>\<rparr>) =
     (exec backend c s)\<lparr>browser := (browser (exec backend c s))\<lparr>import_meta_env := env'\<rparr>\<rparr>"
  by (cases c) (simp_all add: redirectToLogin_def snd_refresh)

lemma run_env:
  "run backend cs (s\<lparr>browser := (browser s)\<lparr>import_meta_env := env'\<rparr>\<rparr>) =
     (run backend cs s)\<lparr>browser := (browser (run backend cs s))\<lparr>import_meta_env := env'\<rparr>\<rparr>"
  by (induction cs arbitrary: s) (simp_all add: exec_env)

section \<open>Resolving the base URL\<close>

text \<open>
  C4. When the environment variable \<open>VITE_API_URL\<close> is not set, the base URL the module
  resolves is the local-development default \<open>http://localhost:8000\<close>.
\<close>

theorem base_url_unset:
  "import_meta_env w ''VITE_API_URL'' = None \<Longrightarrow>
   API_BASE_URL (load_module w) = Str ''http://localhost:8000''"
  by (simp add: API_BASE_URL_load env_get_def js_or_def)

theorem base_url_unset_witness:
  "import_meta_env \<lparr>import_meta_env = Map.empty, href = ''http://localhost:5173/'',
                    requests = [], console = []\<rparr> ''VITE_API_URL'' = None
   \<and> API_BASE_URL (load_module \<lparr>import_meta_env = Map.empty, href = ''http://localhost:5173/'',
                                 requests = [], console = []\<rparr>)
     = Str ''http://localhost:8000''"
proof -
  have unset: "import_meta_env \<lparr>import_meta_env = Map.empty, href = ''http://localhost:5173/'',
                 requests = [], console = []\<rparr> ''VITE_API_URL'' = None"
    by simp
  from base_url_unset [OF unset] unset show ?thesis by simp
qed

text \<open>
  C3, as the specification states it: whatever value \<open>V\<close> the variable is set to, the
  resolved base URL is \<open>V\<close>. The empty string is a value the variable can be set to, and
  there the base URL is not \<open>V\<close>.
\<close>

theorem base_url_set_counterexample:
  "API_BASE_URL (load_module \<lparr>import_meta_env = [''VITE_API_URL'' \<mapsto> ''''],
                              href = ''http://localhost:5173/'', requests = [], console = []\<rparr>)
   \<noteq> Str ''''"
  by (simp add: API_BASE_URL_load env_get_def js_or_def)

text \<open>
  C3, amended: when the environment variable is set to a value \<open>V\<close> that is not the empty
  string, the base URL the module resolves is \<open>V\<close>.
\<close>

theorem base_url_set:
  "import_meta_env w ''VITE_API_URL'' = Some V \<Longrightarrow> V \<noteq> [] \<Longrightarrow>
   API_BASE_URL (load_module w) = Str V"
  by (simp add: API_BASE_URL_load env_get_def js_or_def)

theorem base_url_set_witness:
  "import_meta_env \<lparr>import_meta_env = [''VITE_API_URL'' \<mapsto> ''https://api.example.com''],
                    href = ''http://localhost:5173/'', requests = [], console = []\<rparr>
     ''VITE_API_URL'' = Some ''https://api.example.com''
   \<and> ''https://api.example.com'' \<noteq> []
   \<and> API_BASE_URL (load_module
        \<lparr>import_meta_env = [''VITE_API_URL'' \<mapsto> ''https://api.example.com''],
         href = ''http://localhost:5173/'', requests = [], console = []\<rparr>)
     = Str ''https://api.example.com''"
proof -
  have is_set: "import_meta_env
      \<lparr>import_meta_env = [''VITE_API_URL'' \<mapsto> ''https://api.example.com''],
       href = ''http://localhost:5173/'', requests = [], console = []\<rparr>
      ''VITE_API_URL'' = Some ''https://api.example.com''"
    by simp
  have nonempty: "''https://api.example.com'' \<noteq> []"
    by simp
  from base_url_set [OF is_set nonempty] is_set nonempty show ?thesis by simp
qed

text \<open>
  C10. When the environment variable holds a falsy value, the empty string in particular,
  the base URL the module resolves is the default \<open>http://localhost:8000\<close> and not the
  empty string.
\<close>

theorem base_url_falsy:
  "\<not> truthy (env_get (import_meta_env w) ''VITE_API_URL'') \<Longrightarrow>
   API_BASE_URL (load_module w) = Str ''http://localhost:8000''
   \<and> API_BASE_URL (load_module w) \<noteq> Str ''''"
  by (simp add: API_BASE_URL_load js_or_def)

theorem base_url_falsy_witness:
  "\<not> truthy (env_get (import_meta_env
        \<lparr>import_meta_env = [''VITE_API_URL'' \<mapsto> ''''], href = ''http://localhost:5173/'',
         requests = [], console = []\<rparr>) ''VITE_API_URL'')
   \<and> API_BASE_URL (load_module
        \<lparr>import_meta_env = [''VITE_API_URL'' \<mapsto> ''''], href = ''http://localhost:5173/'',
         requests = [], console = []\<rparr>)
     = Str ''http://localhost:8000''"
proof -
  have falsy: "\<not> truthy (env_get (import_meta_env
        \<lparr>import_meta_env = [''VITE_API_URL'' \<mapsto> ''''], href = ''http://localhost:5173/'',
         requests = [], console = []\<rparr>) ''VITE_API_URL'')"
    by (simp add: env_get_def)
  from base_url_falsy [OF falsy] falsy show ?thesis by simp
qed

text \<open>
  C8. The base URL is resolved once, when the module is loaded, and stays what it is:
  after any session of calls the constant still holds the value resolved from the
  environment as it was at load; every refresh request of the session went to that base URL
  and a login redirect went to it too; and replacing the environment after the load changes
  nothing of what the session does, since no call reads it.
\<close>

theorem base_url_fixed:
  "API_BASE_URL (run backend cs (load_module w)) =
     js_or (env_get (import_meta_env w) ''VITE_API_URL'') (Str ''http://localhost:8000'')
   \<and> API_BASE_URL (run backend cs (load_module w)) = API_BASE_URL (load_module w)
   \<and> requests (browser (run backend cs (load_module w))) =
       requests w @
       map (\<lambda>t. \<lparr>http_method = POST,
                  url = to_string (API_BASE_URL (load_module w)) @ ''/auth/refresh'',
                  body = JObj [(''refresh_token'', JStr t)]\<rparr>) (refresh_tokens cs)
   \<and> href (browser (run backend cs (load_module w))) =
       (if RedirectToLogin \<in> set cs
        then to_string (API_BASE_URL (load_module w)) @ ''/auth/login?redirect=true''
        else href w)
   \<and> run backend cs ((load_module w)\<lparr>browser := (browser (load_module w))\<lparr>import_meta_env := env'\<rparr>\<rparr>) =
       (run backend cs (load_module w))
         \<lparr>browser := (browser (run backend cs (load_module w)))\<lparr>import_meta_env := env'\<rparr>\<rparr>"
proof -
  have "API_BASE_URL (run backend cs (load_module w)) = API_BASE_URL (load_module w)"
    by (rule API_BASE_URL_run)
  moreover have "requests (browser (load_module w)) = requests w"
    and "href (browser (load_module w)) = href w"
    by (simp_all add: browser_load)
  ultimately show ?thesis
    by (simp add: requests_run href_run run_env API_BASE_URL_load)
qed

section \<open>The login redirect\<close>

text \<open>
  C5. A call of \<open>redirectToLogin\<close> assigns to the location exactly the base URL followed by
  \<open>/auth/login?redirect=true\<close> and changes nothing else: no request is sent, nothing is
  written to the console, and the environment and the constant are as before. The function
  gives back only the state.
\<close>

theorem redirectToLogin_effect:
  "href (browser (redirectToLogin s)) = to_string (API_BASE_URL s) @ ''/auth/login?redirect=true''
   \<and> requests (browser (redirectToLogin s)) = requests (browser s)
   \<and> console (browser (redirectToLogin s)) = console (browser s)
   \<and> import_meta_env (browser (redirectToLogin s)) = import_meta_env (browser s)
   \<and> API_BASE_URL (redirectToLogin s) = API_BASE_URL s"
  by (simp add: redirectToLogin_def)

section \<open>Refreshing the access token\<close>

text \<open>
  C1. For every refresh token, \<open>refreshAccessToken\<close> sends exactly one request: a POST to
  the base URL followed by \<open>/auth/refresh\<close> whose body is the JSON object with the single
  member \<open>refresh_token\<close> holding the token. Nothing else goes out: the location is not
  assigned. For the token \<open>abc123\<close> the body is \<open>{"refresh_token": "abc123"}\<close>.
\<close>

theorem refreshAccessToken_one_post:
  "requests (browser (snd (refreshAccessToken backend tok s))) =
     requests (browser s) @
     [\<lparr>http_method = POST, url = to_string (API_BASE_URL s) @ ''/auth/refresh'',
       body = JObj [(''refresh_token'', JStr tok)]\<rparr>]
   \<and> href (browser (snd (refreshAccessToken backend tok s))) = href (browser s)
   \<and> map body (drop (length (requests (browser s)))
        (requests (browser (snd (refreshAccessToken backend ''abc123'' s))))) =
     [JObj [(''refresh_token'', JStr ''abc123'')]]"
  by (simp add: snd_refresh)

text \<open>
  C2, as the specification states it: on every failure it names, a malformed body among
  them, \<open>refreshAccessToken\<close> rejects and never resolves. With the defaults of axios a
  response with status 200 whose body is not JSON does not reject: the call resolves, with
  the text of the body.
\<close>

theorem refreshAccessToken_malformed_counterexample:
  "fst (refreshAccessToken
          (axios_defaults (\<lambda>r. HttpResponse 200 (Malformed ''{not json'')))
          ''abc123''
          \<lparr>API_BASE_URL = Str ''http://localhost:8000'',
           browser = \<lparr>import_meta_env = Map.empty, href = ''http://localhost:5173/'',
                      requests = [], console = [''http://localhost:8000'']\<rparr>\<rparr>)
   = Inr (JStr ''{not json'')"
  by (simp add: fst_refresh axios_defaults_def validateStatus_def)

text \<open>
  C2, amended: whenever the transport rejects, with whatever error,
  \<open>refreshAccessToken\<close> rejects with that same error and does not resolve; and with the
  defaults of axios the transport rejects when there is no response (a network error) and
  when the status of the response is not from 200 to 299 (401, say), whatever its body.
\<close>

theorem refreshAccessToken_rejects:
  "(backend \<lparr>http_method = POST, url = to_string (API_BASE_URL s) @ ''/auth/refresh'',
             body = JObj [(''refresh_token'', JStr tok)]\<rparr> = Inl e \<longrightarrow>
      fst (refreshAccessToken backend tok s) = Inl e)
   \<and> (wire \<lparr>http_method = POST, url = to_string (API_BASE_URL s) @ ''/auth/refresh'',
             body = JObj [(''refresh_token'', JStr tok)]\<rparr> = NoResponse \<longrightarrow>
      fst (refreshAccessToken (axios_defaults wire) tok s) = Inl NetworkError)
   \<and> (wire' \<lparr>http_method = POST, url = to_string (API_BASE_URL s) @ ''/auth/refresh'',
              body = JObj [(''refresh_token'', JStr tok)]\<rparr> = HttpResponse st b \<longrightarrow>
      \<not> validateStatus st \<longrightarrow>
      fst (refreshAccessToken (axios_defaults wire') tok s) = Inl (HttpStatus st))"
  by (simp add: fst_refresh axios_defaults_def)

theorem refreshAccessToken_rejects_witness:
  "axios_defaults
     (\<lambda>r. if url r = ''http://localhost:8000/auth/refresh''
           then HttpResponse 401 (WellFormed (JObj [(''detail'', JStr ''invalid token'')]))
           else NoResponse)
     \<lparr>http_method = POST, url = ''http://localhost:8000/auth/refresh'',
      body = JObj [(''refresh_token'', JStr ''abc123'')]\<rparr> = Inl (HttpStatus 401)
   \<and> fst (refreshAccessToken
        (axios_defaults
           (\<lambda>r. if url r = ''http://localhost:8000/auth/refresh''
                 then HttpResponse 401 (WellFormed (JObj [(''detail'', JStr ''invalid token'')]))
                 else NoResponse))
        ''abc123''
        \<lparr>API_BASE_URL = Str ''http://localhost:8000'',
         browser = \<lparr>import_meta_env = Map.empty, href = ''http://localhost:5173/'',
                    requests = [], console = [''http://localhost:8000'']\<rparr>\<rparr>)
     = Inl (HttpStatus 401)
   \<and> (if url \<lparr>http_method = POST, url = ''http://localhost:8000/auth/refresh'',
                 body = JObj [(''refresh_token'', JStr ''abc123'')]\<rparr> = ''http://backend.invalid/auth/refresh''
       then HttpResponse 200 (WellFormed JNull) else NoResponse) = NoResponse
   \<and> fst (refreshAccessToken
        (axios_defaults
           (\<lambda>r. if url r = ''http://backend.invalid/auth/refresh''
                 then HttpResponse 200 (WellFormed JNull) else NoResponse))
        ''abc123''
        \<lparr>API_BASE_URL = Str ''http://localhost:8000'',
         browser = \<lparr>import_meta_env = Map.empty, href = ''http://localhost:5173/'',
                    requests = [], console = [''http://localhost:8000'']\<rparr>\<rparr>)
     = Inl NetworkError
   \<and> \<not> validateStatus 401"
proof -
  let ?s = "\<lparr>API_BASE_URL = Str ''http://localhost:8000'',
             browser = \<lparr>import_meta_env = Map.empty, href = ''http://localhost:5173/'',
                        requests = [], console = [''http://localhost:8000'']\<rparr>\<rparr>"
  let ?req = "\<lparr>http_method = POST, url = to_string (API_BASE_URL ?s) @ ''/auth/refresh'',
               body = JObj [(''refresh_token'', JStr ''abc123'')]\<rparr>"
  let ?unauthorized = "\<lambda>r. if url r = ''http://localhost:8000/auth/refresh''
           then HttpResponse 401 (WellFormed (JObj [(''detail'', JStr ''invalid token'')]))
           else NoResponse"
  let ?unreachable = "\<lambda>r. if url r = ''http://backend.invalid/auth/refresh''
           then HttpResponse 200 (WellFormed JNull) else NoResponse"
  have status: "\<not> validateStatus 401"
    by (simp add: validateStatus_def)
  have rejected: "axios_defaults ?unauthorized ?req = Inl (HttpStatus 401)"
    by (simp add: axios_defaults_def status)
  have silent: "?unreachable ?req = NoResponse"
    by simp
  have answered: "?unauthorized ?req =
      HttpResponse 401 (WellFormed (JObj [(''detail'', JStr ''invalid token'')]))"
    by simp
  note inst = refreshAccessToken_rejects
    [where backend = "axios_defaults ?unauthorized" and e = "HttpStatus 401"
       and wire = ?unreachable and wire' = ?unauthorized and st = 401
       and b = "WellFormed (JObj [(''detail'', JStr ''invalid token'')])"
       and s = ?s and tok = "''abc123''"]
  from inst rejected silent answered status show ?thesis
    by simp
qed

text \<open>
  C6. When the transport succeeds, the promise of \<open>refreshAccessToken\<close> resolves with the
  payload of the response, the very value the transport delivered.
\<close>

theorem refreshAccessToken_resolves:
  "backend \<lparr>http_method = POST, url = to_string (API_BASE_URL s) @ ''/auth/refresh'',
            body = JObj [(''refresh_token'', JStr tok)]\<rparr> = Inr res \<Longrightarrow>
   fst (refreshAccessToken backend tok s) = Inr (data res)"
  by (simp add: fst_refresh)

theorem refreshAccessToken_resolves_witness:
  "((\<lambda>r. Inr \<lparr>status = 200,
               data = JObj [(''access_token'', JStr ''t''), (''token_type'', JStr ''bearer''),
                            (''expires_in'', JNum 3600)]\<rparr>) :: (transport_error, json) transport)
     \<lparr>http_method = POST,
      url = to_string (API_BASE_URL \<lparr>API_BASE_URL = Str ''http://localhost:8000'',
              browser = \<lparr>import_meta_env = Map.empty, href = ''http://localhost:5173/'',
                         requests = [], console = [''http://localhost:8000'']\<rparr>\<rparr>) @ ''/auth/refresh'',
      body = JObj [(''refresh_token'', JStr ''abc123'')]\<rparr>
     = Inr \<lparr>status = 200,
            data = JObj [(''access_token'', JStr ''t''), (''token_type'', JStr ''bearer''),
                         (''expires_in'', JNum 3600)]\<rparr>
   \<and> fst (refreshAccessToken
        ((\<lambda>r. Inr \<lparr>status = 200,
               data = JObj [(''access_token'', JStr ''t''), (''token_type'', JStr ''bearer''),
                            (''expires_in'', JNum 3600)]\<rparr>) :: (transport_error, json) transport)
        ''abc123''
        \<lparr>API_BASE_URL = Str ''http://localhost:8000'',
         browser = \<lparr>import_meta_env = Map.empty, href = ''http://localhost:5173/'',
                    requests = [], console = [''http://localhost:8000'']\<rparr>\<rparr>)
     = Inr (JObj [(''access_token'', JStr ''t''), (''token_type'', JStr ''bearer''),
                  (''expires_in'', JNum 3600)])"
proof -
  have succeeds: "((\<lambda>r. Inr \<lparr>status = 200,
               data = JObj [(''access_token'', JStr ''t''), (''token_type'', JStr ''bearer''),
                            (''expires_in'', JNum 3600)]\<rparr>) :: (transport_error, json) transport)
     \<lparr>http_method = POST,
      url = to_string (API_BASE_URL \<lparr>API_BASE_URL = Str ''http://localhost:8000'',
              browser = \<lparr>import_meta_env = Map.empty, href = ''http://localhost:5173/'',
                         requests = [], console = [''http://localhost:8000'']\<rparr>\<rparr>) @ ''/auth/refresh'',
      body = JObj [(''refresh_token'', JStr ''abc123'')]\<rparr>
     = Inr \<lparr>status = 200,
            data = JObj [(''access_token'', JStr ''t''), (''token_type'', JStr ''bearer''),
                         (''expires_in'', JNum 3600)]\<rparr>"
    by simp
  from refreshAccessToken_resolves [OF succeeds] succeeds show ?thesis by simp
qed

text \<open>
  C9. \<open>refreshAccessToken\<close> does not check its argument. For every token, the empty string
  too, the request carrying the token is sent, and the outcome of the call is the outcome
  of the transport on that request (its error, or the payload of its response): no error
  comes from the client itself.
\<close>

theorem refreshAccessToken_no_validation:
  "fst (refreshAccessToken backend tok s) =
     map_sum id data
       (backend \<lparr>http_method = POST, url = to_string (API_BASE_URL s) @ ''/auth/refresh'',
                 body = JObj [(''refresh_token'', JStr tok)]\<rparr>)
   \<and> last (requests (browser (snd (refreshAccessToken backend tok s)))) =
       \<lparr>http_method = POST, url = to_string (API_BASE_URL s) @ ''/auth/refresh'',
        body = JObj [(''refresh_token'', JStr tok)]\<rparr>
   \<and> fst (refreshAccessToken backend [] s) =
     map_sum id data
       (backend \<lparr>http_method = POST, url = to_string (API_BASE_URL s) @ ''/auth/refresh'',
                 body = JObj [(''refresh_token'', JStr [])]\<rparr>)
   \<and> length (requests (browser (snd (refreshAccessToken backend [] s)))) =
       Suc (length (requests (browser s)))"
  by (simp add: fst_refresh snd_refresh)

section \<open>The declared type of the login payload\<close>

text \<open>
  C7, as the specification states it: the type declared for the payload of the login
  endpoint has the fields \<open>authorization_url: string\<close> and \<open>state: string\<close>. The declaration
  in the code has no field of that name.
\<close>

theorem AuthLoginResponse_shape_counterexample:
  "\<not> same_shape AuthLoginResponse
       [(''authorization_url'', TString, False), (''state'', TString, False)]"
proof
  assume "same_shape AuthLoginResponse
            [(''authorization_url'', TString, False), (''state'', TString, False)]"
  then have "(''authorization_url'', TString, False) \<in> set AuthLoginResponse"
    by (simp add: same_shape_def)
  then show False
    by (simp add: AuthLoginResponse_def)
qed

text \<open>
  C7, amended: the type declared for the payload of the login endpoint has exactly the
  fields \<open>auth_url: string\<close> and \<open>state: string\<close>, both required.
\<close>

theorem AuthLoginResponse_shape:
  "same_shape AuthLoginResponse [(''auth_url'', TString, False), (''state'', TString, False)]"
  by (simp add: same_shape_def AuthLoginResponse_def)

section \<open>Concrete runs\<close>

text \<open>
  A page served from the development server, with no variable set: loading the module
  writes the default to the console, a refresh with the token \<open>abc123\<close> against a backend
  that answers 401 sends one request, and the login redirect then leaves for the backend.
\<close>

lemma run_default_console:
  "console (browser (load_module
     \<lparr>import_meta_env = Map.empty, href = ''http://localhost:5173/'',
      requests = [], console = []\<rparr>)) = [''http://localhost:8000'']"
  by (simp add: load_module_def env_get_def js_or_def)

lemma run_default_session:
  "browser (run ((\<lambda>r. Inl (HttpStatus 401)) :: (transport_error, json) transport)
     [RefreshAccessToken ''abc123'', RedirectToLogin]
     (load_module \<lparr>import_meta_env = Map.empty, href = ''http://localhost:5173/'',
                   requests = [], console = []\<rparr>))
   = \<lparr>import_meta_env = Map.empty,
      href = ''http://localhost:8000/auth/login?redirect=true'',
      requests = [\<lparr>http_method = POST, url = ''http://localhost:8000/auth/refresh'',
                   body = JObj [(''refresh_token'', JStr ''abc123'')]\<rparr>],
      console = [''http://localhost:8000'']\<rparr>"
  by (simp add: load_module_def env_get_def js_or_def redirectToLogin_def snd_refresh)

text \<open>The same with the variable set: the requests go to the configured backend.\<close>

lemma run_configured_session:
  "requests (browser (run ((\<lambda>r. Inl NetworkError) :: (transport_error, json) transport)
     [RedirectToLogin, RefreshAccessToken ''r1'', RefreshAccessToken '''']
     (load_module \<lparr>import_meta_env = [''VITE_API_URL'' \<mapsto> ''https://api.example.com''],
                   href = ''http://localhost:5173/'', requests = [], console = []\<rparr>)))
   = [\<lparr>http_method = POST, url = ''https://api.example.com/auth/refresh'',
       body = JObj [(''refresh_token'', JStr ''r1'')]\<rparr>,
      \<lparr>http_method = POST, url = ''https://api.example.com/auth/refresh'',
       body = JObj [(''refresh_token'', JStr '''')]\<rparr>]"
  by (simp add: load_module_def env_get_def js_or_def redirectToLogin_def snd_refresh)

end
